theory Spec2Isabelle
  imports Complex_Main "HOL-Library.Word"
begin

section \<open>Errors\<close>

text \<open>
  The C++ class \<^verbatim>\<open>Error\<close> converts to \<^verbatim>\<open>true\<close> exactly when it holds a failure;
  \<^verbatim>\<open>Success()\<close> is the value that converts to \<^verbatim>\<open>false\<close>. The failures that occur
  in the two source files are \<^verbatim>\<open>unknownError(message, ...)\<close>, the JSON error codes
  and the opaque errors handed back by a collaborator.
\<close>

datatype errc = ParamMissing | ParamTypeMismatch

datatype Error =
    Success
  | unknownError string
  | jsonError errc
  | collaboratorError nat

section \<open>Data model\<close>

text \<open>
  Modelled from the spec: the class \<^verbatim>\<open>SessionScope\<close> (its header is not among the
  sources). The spec gives a scope as the pair of a project and an id, rebuilt
  structurally by \<^verbatim>\<open>fromProjectId\<close>. The accessor \<^verbatim>\<open>id()\<close> is the field
  \<open>scope_id\<close> here.
\<close>

record SessionScope =
  project :: string
  scope_id :: string

definition fromProjectId :: "string \<Rightarrow> string \<Rightarrow> SessionScope" where
  "fromProjectId p i = \<lparr>project = p, scope_id = i\<rparr>"

record SessionContext =
  username :: string
  scope :: SessionScope

text \<open>
  Modelled from the spec: \<^verbatim>\<open>RLimitType\<close>, the limits structure and the process
  configuration are declared in headers that are not among the sources. The spec
  gives each limit as an unsigned 64-bit value and the priority as a 32-bit integer;
  the stream behaviour is an enumeration carried as a C \<^verbatim>\<open>int\<close>. The source obtains
  both \<^verbatim>\<open>args\<close> and \<^verbatim>\<open>environment\<close> from \<^verbatim>\<open>toStringPairList()\<close>, so both are lists
  of string pairs.
\<close>

type_synonym RLimitType = "64 word"

type_synonym StringPairList = "(string \<times> string) list"

record ProcessLimits =
  priority :: "32 word"
  memoryLimitBytes :: RLimitType
  stackLimitBytes :: RLimitType
  userProcessesLimit :: RLimitType
  cpuLimit :: RLimitType
  niceLimit :: RLimitType
  filesLimit :: RLimitType
  cpuAffinity :: "bool list"

record ProcessConfig =
  args :: StringPairList
  environment :: StringPairList
  stdInput :: string
  stdStreamBehavior :: "32 word"
  limits :: ProcessLimits

record SessionLaunchProfile =
  "context" :: SessionContext
  password :: string
  encryptionKey :: string
  executablePath :: string
  config :: ProcessConfig

section \<open>Collaborators of the password protocol\<close>

text \<open>
  The functions of \<^verbatim>\<open>core::system::crypto\<close> are external to the two source files.
  They are parameters of the model: each takes its inputs and yields the
  \<^verbatim>\<open>Error\<close> it returns together with what it wrote through its output pointers.
  \<^verbatim>\<open>encryptDataAsBase64EncodedString\<close> yields the initialisation vector and then the
  ciphertext. \<open>crypto_random\<close> is \<^verbatim>\<open>core::system::crypto::random\<close>.
\<close>

record crypto =
  crypto_random :: "nat \<Rightarrow> Error \<times> 8 word list"
  encryptDataAsBase64EncodedString :: "string \<Rightarrow> string \<Rightarrow> Error \<times> string \<times> string"
  base64Encode :: "8 word list \<Rightarrow> Error \<times> string"
  base64Decode :: "string \<Rightarrow> Error \<times> 8 word list"
  decryptBase64EncodedString :: "string \<Rightarrow> string \<Rightarrow> string \<Rightarrow> Error \<times> string"

text \<open>
  \<^verbatim>\<open>std::copy(v.begin(), v.end(), std::back_inserter(str))\<close>: every
  \<^verbatim>\<open>unsigned char\<close> becomes the \<^verbatim>\<open>char\<close> with the same eight bits.
\<close>

definition copy_to_string :: "8 word list \<Rightarrow> string" where
  "copy_to_string v = map (\<lambda>b. char_of (unat b)) v"

text \<open>
  Modelled from the spec: \<^verbatim>\<open>core::algorithm::join\<close> and \<^verbatim>\<open>core::algorithm::split\<close>
  (header \<^verbatim>\<open>core/Algorithm.hpp\<close>, not among the sources). The spec gives the joined
  key as \<^verbatim>\<open>base64PasswordKey + "|" + ivPasswordKey\<close> and counts one part more than
  there are delimiters, empty parts included. \<^verbatim>\<open>split_loop\<close> carries the part read so
  far; the source only ever passes the one-character delimiter \<^verbatim>\<open>"|"\<close>, and an empty
  delimiter is never matched here.
\<close>

fun join :: "string list \<Rightarrow> string \<Rightarrow> string" where
  "join [] delim = []"
| "join [x] delim = x"
| "join (x # y # ys) delim = x @ delim @ join (y # ys) delim"

function split_loop :: "string \<Rightarrow> string \<Rightarrow> string \<Rightarrow> string list" where
  "split_loop delim part [] = [part]"
| "split_loop delim part (c # cs) =
     (if delim \<noteq> [] \<and> take (length delim) (c # cs) = delim
      then part # split_loop delim [] (drop (length delim) (c # cs))
      else split_loop delim (part @ [c]) cs)"
  by pat_completeness auto
termination
  by (relation "measure (\<lambda>(delim, part, s). length s)") auto

definition split :: "string \<Rightarrow> string \<Rightarrow> string list" where
  "split s delim = split_loop delim [] s"

section \<open>The password protocol\<close>

text \<open>
  \<^verbatim>\<open>encryptProfilePassword(SessionLaunchProfile& profile, std::string* encryptedPassword)\<close>.
  The result is the returned \<^verbatim>\<open>Error\<close>, the profile as the call leaves it, and the
  content of \<^verbatim>\<open>*encryptedPassword\<close>: \<open>None\<close> while the pointer has not been handed to
  the cipher, \<open>Some\<close> of what the cipher wrote afterwards.
\<close>

definition encryptProfilePassword ::
  "crypto \<Rightarrow> SessionLaunchProfile \<Rightarrow> Error \<times> SessionLaunchProfile \<times> string option" where
  "encryptProfilePassword cr profile =
     (case crypto_random cr 32 of (error, passwordKey) \<Rightarrow>
      if error \<noteq> Success then (error, profile, None)
      else
        let passwordKeyStr = copy_to_string passwordKey in
        (case encryptDataAsBase64EncodedString cr (password profile) passwordKeyStr of
           (error, ivPasswordKey, encryptedPassword) \<Rightarrow>
           if error \<noteq> Success then (error, profile, Some encryptedPassword)
           else
             (case base64Encode cr passwordKey of (error, base64PasswordKey) \<Rightarrow>
              if error \<noteq> Success then (error, profile, Some encryptedPassword)
              else
                let encryptionKeyStr = join [base64PasswordKey, ivPasswordKey] ''|'' in
                (Success,
                 profile\<lparr>password := '''', encryptionKey := encryptionKeyStr\<rparr>,
                 Some encryptedPassword))))"

text \<open>
  \<^verbatim>\<open>decryptProfilePassword(SessionLaunchProfile& profile, const std::string& encryptedPassword)\<close>:
  the returned \<^verbatim>\<open>Error\<close> and the profile as the call leaves it. The two index reads
  \<^verbatim>\<open>passwordKeyParts[0]\<close> and \<^verbatim>\<open>passwordKeyParts[1]\<close> happen only after the size
  check, so the list pattern below covers them.
\<close>

definition decryptProfilePassword ::
  "crypto \<Rightarrow> SessionLaunchProfile \<Rightarrow> string \<Rightarrow> Error \<times> SessionLaunchProfile" where
  "decryptProfilePassword cr profile encryptedPassword =
     (case split (encryptionKey profile) ''|'' of
        [passwordKey, ivPasswordKey] \<Rightarrow>
          (case base64Decode cr passwordKey of (error, passwordKeyBin) \<Rightarrow>
           if error \<noteq> Success then (error, profile)
           else
             let passwordKeyBinStr = copy_to_string passwordKeyBin in
             (case decryptBase64EncodedString cr encryptedPassword passwordKeyBinStr ivPasswordKey of
                (error, decryptedPassword) \<Rightarrow>
                if error \<noteq> Success then (error, profile)
                else (Success, profile\<lparr>password := decryptedPassword, encryptionKey := ''''\<rparr>)))
      | _ \<Rightarrow> (unknownError ''Profile password encryption key invalid format'', profile))"

section \<open>Structured values\<close>

text \<open>
  Modelled from the spec: the structured-value library (\<^verbatim>\<open>json::Value\<close>,
  \<^verbatim>\<open>json::Object\<close>, \<^verbatim>\<open>json::Array\<close>, \<^verbatim>\<open>json::readObject\<close>, \<^verbatim>\<open>json::isType\<close>,
  \<^verbatim>\<open>json::toJsonArray\<close>) is not among the sources. The spec names it a value of
  objects, arrays, strings, numbers and booleans with typed accessors and a
  \<^verbatim>\<open>ParamTypeMismatch\<close> error kind. A number is either an integer or a floating-point
  value; an object keeps its members in insertion order and \<^verbatim>\<open>object[name] = v\<close>
  replaces the member of that name or appends it.
\<close>

datatype json =
    JNull
  | JBool bool
  | JInt int
  | JReal real
  | JString string
  | JArray "json list"
  | JObject "(string \<times> json) list"

type_synonym members = "(string \<times> json) list"

fun setMember :: "string \<Rightarrow> json \<Rightarrow> members \<Rightarrow> members" where
  "setMember name v [] = [(name, v)]"
| "setMember name v ((n, w) # ms) =
     (if n = name then (n, v) # ms else (n, w) # setMember name v ms)"

section \<open>Conversions between integers and \<^verbatim>\<open>double\<close>\<close>

text \<open>
  The decoder reads every limit into a local of type \<^verbatim>\<open>double\<close> and assigns it to
  an \<^verbatim>\<open>RLimitType\<close> field. A finite \<^verbatim>\<open>double\<close> is modelled by the real number it
  denotes. Converting an integer to \<^verbatim>\<open>double\<close> rounds to 53 significant bits, to
  nearest and ties to even: \<open>excess_bits n\<close> is the number of low bits of \<open>n\<close> that
  do not fit. The integers of a document are 64-bit values, far below the largest
  finite \<^verbatim>\<open>double\<close>, so the conversion never overflows. Converting a \<^verbatim>\<open>double\<close> to the unsigned 64-bit type drops the fraction;
  the C++ conversion is undefined when the truncated value is not representable,
  which is \<open>None\<close> here.
\<close>

function excess_bits :: "int \<Rightarrow> nat" where
  "excess_bits n = (if n < 2 ^ 53 then 0 else Suc (excess_bits (n div 2)))"
  by pat_completeness auto
termination
  by (relation "measure (\<lambda>n. nat n)") auto

declare excess_bits.simps [simp del]

definition round_to_double :: "int \<Rightarrow> int" where
  "round_to_double n =
     (let u = 2 ^ excess_bits n; q = n div u; r = n mod u
      in if 2 * r < u then q * u
         else if u < 2 * r then (q + 1) * u
         else if even q then q * u else (q + 1) * u)"

definition double_of_int :: "int \<Rightarrow> real" where
  "double_of_int i =
     (if i < 0 then - real_of_int (round_to_double (- i)) else real_of_int (round_to_double i))"

definition uint64_of_double :: "real \<Rightarrow> 64 word option" where
  "uint64_of_double d =
     (let t = (if d < 0 then \<lceil>d\<rceil> else \<lfloor>d\<rfloor>)
      in if 0 \<le> t \<and> t < 2 ^ 64 then Some (word_of_int t) else None)"

text \<open>
  Modelled from the spec: the typed accessors of the library. Reading an \<^verbatim>\<open>int\<close>
  accepts an integer number in the 32-bit range, reading a \<^verbatim>\<open>double\<close> accepts any
  number. \<open>readMember object name get put\<close> is \<^verbatim>\<open>readObject\<close> for one name and one
  output pointer: it fails with the locals untouched when the member is missing or
  of the wrong type. The variadic \<^verbatim>\<open>readObject\<close> reads its names in order and
  returns at the first failure, so the outputs before it are written and the ones
  after it are not.
\<close>

fun asString :: "json \<Rightarrow> string option" where
  "asString (JString s) = Some s"
| "asString _ = None"

fun asObject :: "json \<Rightarrow> members option" where
  "asObject (JObject ms) = Some ms"
| "asObject _ = None"

fun asArray :: "json \<Rightarrow> json list option" where
  "asArray (JArray vs) = Some vs"
| "asArray _ = None"

fun asInt :: "json \<Rightarrow> 32 word option" where
  "asInt (JInt i) = (if - (2 ^ 31) \<le> i \<and> i < 2 ^ 31 then Some (word_of_int i) else None)"
| "asInt _ = None"

fun asDouble :: "json \<Rightarrow> real option" where
  "asDouble (JInt i) = Some (double_of_int i)"
| "asDouble (JReal d) = Some d"
| "asDouble _ = None"

type_synonym 's reader = "'s \<Rightarrow> Error \<times> 's"

definition readMember ::
  "members \<Rightarrow> string \<Rightarrow> (json \<Rightarrow> 'a option) \<Rightarrow> ('a \<Rightarrow> 's \<Rightarrow> 's) \<Rightarrow> 's reader" where
  "readMember object name get put s =
     (case map_of object name of
        None \<Rightarrow> (jsonError ParamMissing, s)
      | Some v \<Rightarrow>
          (case get v of
             None \<Rightarrow> (jsonError ParamTypeMismatch, s)
           | Some x \<Rightarrow> (Success, put x s)))"

fun readObject :: "'s reader list \<Rightarrow> 's reader" where
  "readObject [] s = (Success, s)"
| "readObject (r # rs) s =
     (case r s of (error, s') \<Rightarrow> if error \<noteq> Success then (error, s') else readObject rs s')"

text \<open>
  The conversions between a list of string pairs and an array or an object
  (\<^verbatim>\<open>json::Array(pairs)\<close>, \<^verbatim>\<open>Array::toStringPairList()\<close>, \<^verbatim>\<open>json::Object(pairs)\<close>,
  \<^verbatim>\<open>Object::toStringPairList()\<close>) belong to the same library. The spec fixes only
  the wire shape (an array of strings, an object of strings), so they are
  parameters of the model.
\<close>

record json_pairs =
  arrayOfPairs :: "StringPairList \<Rightarrow> json list"
  arrayToStringPairList :: "json list \<Rightarrow> StringPairList"
  objectOfPairs :: "StringPairList \<Rightarrow> members"
  objectToStringPairList :: "members \<Rightarrow> StringPairList"

section \<open>The launch profile codec\<close>

definition contextAsJson :: "SessionContext \<Rightarrow> members" where
  "contextAsJson ctx =
     (let scopeJson = [];
          scopeJson = setMember ''username'' (JString (username ctx)) scopeJson;
          scopeJson = setMember ''project'' (JString (project (scope ctx))) scopeJson;
          scopeJson = setMember ''id'' (JString (scope_id (scope ctx))) scopeJson
      in scopeJson)"

text \<open>
  \<^verbatim>\<open>contextFromJson(contextJson, pContext)\<close>: the locals are the context written
  through \<^verbatim>\<open>pContext\<close> and the two strings \<^verbatim>\<open>project\<close> and \<^verbatim>\<open>id\<close>.
\<close>

definition contextFromJson :: "members \<Rightarrow> SessionContext \<Rightarrow> Error \<times> SessionContext" where
  "contextFromJson contextJson pContext =
     (case readObject
             [readMember contextJson ''username'' asString (\<lambda>v (c, p, i). (c\<lparr>username := v\<rparr>, p, i)),
              readMember contextJson ''project'' asString (\<lambda>v (c, p, i). (c, v, i)),
              readMember contextJson ''id'' asString (\<lambda>v (c, p, i). (c, p, v))]
             (pContext, [], [])
      of (error, (c, projectStr, idStr)) \<Rightarrow>
        if error \<noteq> Success then (error, c)
        else (Success, c\<lparr>scope := fromProjectId projectStr idStr\<rparr>))"

text \<open>
  \<^verbatim>\<open>cpuAffinityFromJson\<close>: \<^verbatim>\<open>pAffinity->clear()\<close>, then one \<^verbatim>\<open>push_back\<close> for each
  boolean element; the first element that is not a boolean ends the loop with
  \<^verbatim>\<open>ParamTypeMismatch\<close>.
\<close>

fun cpuAffinity_loop :: "json list \<Rightarrow> bool list \<Rightarrow> Error \<times> bool list" where
  "cpuAffinity_loop [] pAffinity = (Success, pAffinity)"
| "cpuAffinity_loop (JBool b # vals) pAffinity = cpuAffinity_loop vals (pAffinity @ [b])"
| "cpuAffinity_loop (val # vals) pAffinity = (jsonError ParamTypeMismatch, pAffinity)"

definition cpuAffinityFromJson :: "json list \<Rightarrow> Error \<times> bool list" where
  "cpuAffinityFromJson affinityJson = cpuAffinity_loop affinityJson []"

text \<open>
  \<^verbatim>\<open>toJson(RLimitType limit)\<close>: the body of the \<^verbatim>\<open>try\<close> block converts the limit with
  \<^verbatim>\<open>boost::uint64_t(limit)\<close>, an integral conversion, and builds a number from it;
  the handler returns the number 0. \<open>uint64_value\<close> is the constructor
  \<^verbatim>\<open>json::Value(boost::uint64_t)\<close>, which returns.
\<close>

datatype 'a outcome = Returned 'a | Thrown

definition uint64_value :: "64 word \<Rightarrow> json outcome" where
  "uint64_value v = Returned (JInt (uint v))"

definition toJson :: "RLimitType \<Rightarrow> json" where
  "toJson limit =
     (case uint64_value (ucast limit) of
        Returned v \<Rightarrow> v
      | Thrown \<Rightarrow> JInt 0)"

text \<open>
  Modelled from the spec: \<^verbatim>\<open>json::toJsonArray\<close> on a sequence of booleans gives the
  ordered array of those booleans.
\<close>

definition toJsonArray :: "bool list \<Rightarrow> json" where
  "toJsonArray bs = JArray (map JBool bs)"

definition sessionLaunchProfileToJson :: "json_pairs \<Rightarrow> SessionLaunchProfile \<Rightarrow> members" where
  "sessionLaunchProfileToJson lib profile =
     (let profileJson = [];
          profileJson = setMember ''context'' (JObject (contextAsJson (context profile))) profileJson;
          profileJson = setMember ''password'' (JString (password profile)) profileJson;
          profileJson = setMember ''encryptionKey'' (JString (encryptionKey profile)) profileJson;
          profileJson = setMember ''executablePath'' (JString (executablePath profile)) profileJson;
          cfg = config profile;
          configJson = [];
          configJson = setMember ''args'' (JArray (arrayOfPairs lib (args cfg))) configJson;
          configJson = setMember ''environment'' (JObject (objectOfPairs lib (environment cfg))) configJson;
          configJson = setMember ''stdInput'' (JString (stdInput cfg)) configJson;
          configJson = setMember ''stdStreamBehavior'' (JInt (sint (stdStreamBehavior cfg))) configJson;
          configJson = setMember ''priority'' (JInt (sint (priority (limits cfg)))) configJson;
          configJson = setMember ''memoryLimitBytes'' (toJson (memoryLimitBytes (limits cfg))) configJson;
          configJson = setMember ''stackLimitBytes'' (toJson (stackLimitBytes (limits cfg))) configJson;
          configJson = setMember ''userProcessesLimit'' (toJson (userProcessesLimit (limits cfg))) configJson;
          configJson = setMember ''cpuLimit'' (toJson (cpuLimit (limits cfg))) configJson;
          configJson = setMember ''niceLimit'' (toJson (niceLimit (limits cfg))) configJson;
          configJson = setMember ''filesLimit'' (toJson (filesLimit (limits cfg))) configJson;
          configJson = setMember ''cpuAffinity'' (toJsonArray (cpuAffinity (limits cfg))) configJson;
          profileJson = setMember ''config'' (JObject configJson) profileJson
      in profileJson)"


text \<open>
  The locals of \<^verbatim>\<open>sessionLaunchProfileFromJson\<close>. The six \<^verbatim>\<open>double\<close> locals are
  declared without an initialiser, \<^verbatim>\<open>stdStreamBehavior\<close> and \<^verbatim>\<open>priority\<close> with
  \<^verbatim>\<open>= 0\<close>; what the six hold before the read is a parameter of the decoder.
\<close>

record limit_doubles =
  d_memoryLimitBytes :: real
  d_stackLimitBytes :: real
  d_userProcessesLimit :: real
  d_cpuLimit :: real
  d_niceLimit :: real
  d_filesLimit :: real

record config_locals = limit_doubles +
  argsJson :: "json list"
  envJson :: members
  l_stdInput :: string
  l_stdStreamBehavior :: "32 word"
  l_priority :: "32 word"

record profile_locals =
  l_profile :: SessionLaunchProfile
  contextJson :: members
  configJson :: members

text \<open>
  Modelled from the spec: the default-constructed profile (empty strings, empty
  lists, zero). Every field of its configuration is overwritten by the decoder.
\<close>

definition default_profile :: SessionLaunchProfile where
  "default_profile =
     \<lparr>context = \<lparr>username = [], scope = \<lparr>project = [], scope_id = []\<rparr>\<rparr>,
      password = [], encryptionKey = [], executablePath = [],
      config =
        \<lparr>args = [], environment = [], stdInput = [], stdStreamBehavior = 0,
         limits =
           \<lparr>priority = 0, memoryLimitBytes = 0, stackLimitBytes = 0, userProcessesLimit = 0,
            cpuLimit = 0, niceLimit = 0, filesLimit = 0, cpuAffinity = []\<rparr>\<rparr>\<rparr>"

text \<open>\<^verbatim>\<open>LOG_ERROR(error)\<close> appends the error to the log of the process.\<close>

definition LOG_ERROR :: "Error \<Rightarrow> Error list \<Rightarrow> Error list" where
  "LOG_ERROR error logged = logged @ [error]"

text \<open>
  \<^verbatim>\<open>sessionLaunchProfileFromJson\<close>: the profile it returns, \<open>None\<close> when one of the
  six conversions from \<^verbatim>\<open>double\<close> is undefined, and the errors it logged.
\<close>

definition sessionLaunchProfileFromJson ::
  "json_pairs \<Rightarrow> limit_doubles \<Rightarrow> members \<Rightarrow> SessionLaunchProfile option \<times> Error list" where
  "sessionLaunchProfileFromJson lib indeterminate jsonProfile =
     (let (error, frame) =
            readObject
              [readMember jsonProfile ''context'' asObject (\<lambda>v s. s\<lparr>contextJson := v\<rparr>),
               readMember jsonProfile ''password'' asString
                 (\<lambda>v s. s\<lparr>l_profile := (l_profile s)\<lparr>password := v\<rparr>\<rparr>),
               readMember jsonProfile ''encryptionKey'' asString
                 (\<lambda>v s. s\<lparr>l_profile := (l_profile s)\<lparr>encryptionKey := v\<rparr>\<rparr>),
               readMember jsonProfile ''executablePath'' asString
                 (\<lambda>v s. s\<lparr>l_profile := (l_profile s)\<lparr>executablePath := v\<rparr>\<rparr>),
               readMember jsonProfile ''config'' asObject (\<lambda>v s. s\<lparr>configJson := v\<rparr>)]
              \<lparr>l_profile = default_profile, contextJson = [], configJson = []\<rparr>;
          logged = (if error \<noteq> Success then LOG_ERROR error [] else []);
          (error, ctx) = contextFromJson (contextJson frame) (context (l_profile frame));
          profile = (l_profile frame)\<lparr>context := ctx\<rparr>;
          logged = (if error \<noteq> Success then LOG_ERROR error logged else logged);
          (error, cfg) =
            readObject
              [readMember (configJson frame) ''args'' asArray (\<lambda>v s. s\<lparr>argsJson := v\<rparr>),
               readMember (configJson frame) ''environment'' asObject (\<lambda>v s. s\<lparr>envJson := v\<rparr>),
               readMember (configJson frame) ''stdInput'' asString (\<lambda>v s. s\<lparr>l_stdInput := v\<rparr>),
               readMember (configJson frame) ''stdStreamBehavior'' asInt
                 (\<lambda>v s. s\<lparr>l_stdStreamBehavior := v\<rparr>),
               readMember (configJson frame) ''priority'' asInt (\<lambda>v s. s\<lparr>l_priority := v\<rparr>),
               readMember (configJson frame) ''memoryLimitBytes'' asDouble
                 (\<lambda>v s. s\<lparr>d_memoryLimitBytes := v\<rparr>),
               readMember (configJson frame) ''stackLimitBytes'' asDouble
                 (\<lambda>v s. s\<lparr>d_stackLimitBytes := v\<rparr>),
               readMember (configJson frame) ''userProcessesLimit'' asDouble
                 (\<lambda>v s. s\<lparr>d_userProcessesLimit := v\<rparr>),
               readMember (configJson frame) ''cpuLimit'' asDouble (\<lambda>v s. s\<lparr>d_cpuLimit := v\<rparr>),
               readMember (configJson frame) ''niceLimit'' asDouble (\<lambda>v s. s\<lparr>d_niceLimit := v\<rparr>),
               readMember (configJson frame) ''filesLimit'' asDouble (\<lambda>v s. s\<lparr>d_filesLimit := v\<rparr>)]
              \<lparr>d_memoryLimitBytes = d_memoryLimitBytes indeterminate,
               d_stackLimitBytes = d_stackLimitBytes indeterminate,
               d_userProcessesLimit = d_userProcessesLimit indeterminate,
               d_cpuLimit = d_cpuLimit indeterminate,
               d_niceLimit = d_niceLimit indeterminate,
               d_filesLimit = d_filesLimit indeterminate,
               argsJson = [], envJson = [], l_stdInput = [],
               l_stdStreamBehavior = 0, l_priority = 0\<rparr>;
          logged = (if error \<noteq> Success then LOG_ERROR error logged else logged);
          (error, cpuAffinityJson) =
            readObject [readMember (configJson frame) ''cpuAffinity'' asArray (\<lambda>v s. v)] [];
          logged = (if error \<noteq> Success then LOG_ERROR error logged else logged);
          (error, affinity) = cpuAffinityFromJson cpuAffinityJson;
          (affinity, logged) =
            (if error \<noteq> Success then ([], LOG_ERROR error logged) else (affinity, logged))
      in (case those (map uint64_of_double
                  [d_memoryLimitBytes cfg, d_stackLimitBytes cfg, d_userProcessesLimit cfg,
                   d_cpuLimit cfg, d_niceLimit cfg, d_filesLimit cfg]) of
            Some [memoryLimit, stackLimit, userProcesses, cpu, nice, files] \<Rightarrow>
              Some (profile\<lparr>config := (config profile)
                     \<lparr>args := arrayToStringPairList lib (argsJson cfg),
                      environment := objectToStringPairList lib (envJson cfg),
                      stdInput := l_stdInput cfg,
                      stdStreamBehavior := l_stdStreamBehavior cfg,
                      limits := (limits (config profile))
                        \<lparr>priority := l_priority cfg,
                         memoryLimitBytes := memoryLimit,
                         stackLimitBytes := stackLimit,
                         userProcessesLimit := userProcesses,
                         cpuLimit := cpu,
                         niceLimit := nice,
                         filesLimit := files,
                         cpuAffinity := affinity\<rparr>\<rparr>\<rparr>)
          | _ \<Rightarrow> None,
          logged))"

section \<open>The fork tracker\<close>

text \<open>
  The file-level state of \<^verbatim>\<open>SessionMainProcess.cpp\<close>: \<^verbatim>\<open>s_mainThreadId\<close> (a
  default-constructed thread id is \<open>None\<close>), \<^verbatim>\<open>s_wasForked\<close> and the thread-specific
  pointer \<^verbatim>\<open>t_isMainThread\<close> (one pointer for each thread, \<open>None\<close> when null).
  \<open>atfork_registered\<close> records that \<^verbatim>\<open>pthread_atfork\<close> accepted the three hooks.
  The calling thread is an argument of every function that asks for it.
\<close>

type_synonym thread_id = nat

record main_process =
  s_mainThreadId :: "thread_id option"
  s_wasForked :: bool
  t_isMainThread :: "thread_id \<Rightarrow> bool option"
  atfork_registered :: bool

definition initial_process :: main_process where
  "initial_process =
     \<lparr>s_mainThreadId = None, s_wasForked = False,
      t_isMainThread = (\<lambda>t. None), atfork_registered = False\<rparr>"

definition wasForked :: "main_process \<Rightarrow> bool" where
  "wasForked s = s_wasForked s"

definition prepareFork :: "thread_id \<Rightarrow> main_process \<Rightarrow> main_process" where
  "prepareFork this_thread s = (if Some this_thread \<noteq> s_mainThreadId s then s else s)"

definition atForkParent :: "thread_id \<Rightarrow> main_process \<Rightarrow> main_process" where
  "atForkParent this_thread s = (if Some this_thread \<noteq> s_mainThreadId s then s else s)"

definition atForkChild :: "main_process \<Rightarrow> main_process" where
  "atForkChild s = s\<lparr>s_wasForked := True\<rparr>"

datatype platform = Unix | Win32

definition setupForkHandlers :: "platform \<Rightarrow> int \<Rightarrow> main_process \<Rightarrow> main_process" where
  "setupForkHandlers pf rc s =
     (case pf of
        Unix \<Rightarrow> if rc \<noteq> 0 then s else s\<lparr>atfork_registered := True\<rparr>
      | Win32 \<Rightarrow> s)"

definition sysIsMainThread :: "thread_id \<Rightarrow> main_process \<Rightarrow> bool" where
  "sysIsMainThread this_thread s = (Some this_thread = s_mainThreadId s)"

definition isMainThread :: "thread_id \<Rightarrow> main_process \<Rightarrow> bool \<times> string list" where
  "isMainThread this_thread s =
     (let res = (t_isMainThread s this_thread \<noteq> None) in
      (res, if res \<noteq> sysIsMainThread this_thread s
            then [''isMainThreadCheck - wrong result!''] else []))"

definition initThreadId :: "thread_id \<Rightarrow> main_process \<Rightarrow> main_process" where
  "initThreadId this_thread s =
     s\<lparr>s_mainThreadId := Some this_thread,
       t_isMainThread := (t_isMainThread s)(this_thread \<mapsto> True)\<rparr>"

datatype event =
    SetupForkHandlers int
  | InitThreadId thread_id
  | ForkParent thread_id
  | ForkChild thread_id

fun step :: "platform \<Rightarrow> main_process \<Rightarrow> event \<Rightarrow> main_process" where
  "step pf s (SetupForkHandlers rc) = setupForkHandlers pf rc s"
| "step pf s (InitThreadId t) = initThreadId t s"
| "step pf s (ForkParent t) =
     (if atfork_registered s then atForkParent t (prepareFork t s) else s)"
| "step pf s (ForkChild t) =
     (if atfork_registered s then atForkChild (prepareFork t s) else s)"

definition run :: "platform \<Rightarrow> event list \<Rightarrow> main_process \<Rightarrow> main_process" where
  "run pf evs s = foldl (step pf) s evs"

fun is_InitThreadId :: "event \<Rightarrow> bool" where
  "is_InitThreadId (InitThreadId t) = True"
| "is_InitThreadId _ = False"

fun is_ForkChild :: "event \<Rightarrow> bool" where
  "is_ForkChild (ForkChild t) = True"
| "is_ForkChild _ = False"

section \<open>Sample inputs\<close>

text \<open>
  Stand-ins for the collaborators, to run the model on concrete inputs: a random
  source that returns bytes \<open>0x2A\<close>, a cipher that reverses its input under a fixed
  initialisation vector, a byte-for-byte text encoding, and a pair-list conversion
  writing \<^verbatim>\<open>first=second\<close>. \<open>failing_crypto\<close> fails every call.
\<close>

definition stub_crypto :: crypto where
  "stub_crypto =
     \<lparr>crypto_random = (\<lambda>n. (Success, replicate n 42)),
      encryptDataAsBase64EncodedString = (\<lambda>input key. (Success, ''aXY='', rev input)),
      base64Encode = (\<lambda>bytes. (Success, copy_to_string bytes)),
      base64Decode = (\<lambda>s. (Success, map (\<lambda>c. of_nat (of_char c)) s)),
      decryptBase64EncodedString = (\<lambda>input key iv. (Success, rev input))\<rparr>"

definition failing_crypto :: crypto where
  "failing_crypto =
     \<lparr>crypto_random = (\<lambda>n. (collaboratorError 1, [])),
      encryptDataAsBase64EncodedString = (\<lambda>input key. (collaboratorError 2, [], [])),
      base64Encode = (\<lambda>bytes. (collaboratorError 3, [])),
      base64Decode = (\<lambda>s. (collaboratorError 4, [])),
      decryptBase64EncodedString = (\<lambda>input key iv. (collaboratorError 5, []))\<rparr>"

definition stub_json_pairs :: json_pairs where
  "stub_json_pairs =
     \<lparr>arrayOfPairs = map (\<lambda>(a, b). JString (a @ ''='' @ b)),
      arrayToStringPairList =
        concat \<circ> map (\<lambda>v. case v of
                            JString s \<Rightarrow> [(takeWhile (\<lambda>c. c \<noteq> CHR ''='') s,
                                          drop 1 (dropWhile (\<lambda>c. c \<noteq> CHR ''='') s))]
                          | _ \<Rightarrow> []),
      objectOfPairs = map (\<lambda>(k, v). (k, JString v)),
      objectToStringPairList =
        concat \<circ> map (\<lambda>(k, v). case v of JString s \<Rightarrow> [(k, s)] | _ \<Rightarrow> [])\<rparr>"

text \<open>The profile of the end-to-end scenario of the spec.\<close>

definition scenario_profile :: SessionLaunchProfile where
  "scenario_profile =
     \<lparr>context = \<lparr>username = ''user'', scope = \<lparr>project = ''proj'', scope_id = ''1a2b''\<rparr>\<rparr>,
      password = ''s3cr3t'',
      encryptionKey = '''',
      executablePath = ''/usr/lib/rstudio-server/bin/rsession'',
      config =
        \<lparr>args = [(''--flag'', '''')],
         environment = [(''HOME'', ''/home/user'')],
         stdInput = '''',
         stdStreamBehavior = 1,
         limits =
           \<lparr>priority = 0,
            memoryLimitBytes = 2000000000,
            stackLimitBytes = 0,
            userProcessesLimit = 0,
            cpuLimit = 0,
            niceLimit = 0,
            filesLimit = 0,
            cpuAffinity = [True, False, True]\<rparr>\<rparr>\<rparr>"

definition large_limit_profile :: SessionLaunchProfile where
  "large_limit_profile =
     scenario_profile\<lparr>config := (config scenario_profile)
       \<lparr>limits := (limits (config scenario_profile))
          \<lparr>memoryLimitBytes := 9007199254740993\<rparr>\<rparr>\<rparr>"

definition leftover_doubles :: limit_doubles where
  "leftover_doubles =
     \<lparr>d_memoryLimitBytes = 5, d_stackLimitBytes = 6, d_userProcessesLimit = 7,
      d_cpuLimit = 11, d_niceLimit = 13, d_filesLimit = 17\<rparr>"

section \<open>Splitting the encryption key\<close>

lemma split_loop_bar_Cons:
  "split_loop ''|'' part (c # cs) =
     (if c = CHR ''|'' then part # split_loop ''|'' [] cs else split_loop ''|'' (part @ [c]) cs)"
  by simp

lemma split_loop_no_delim:
  "CHR ''|'' \<notin> set s \<Longrightarrow> split_loop ''|'' part s = [part @ s]"
  by (induction s arbitrary: part)
     (auto simp del: split_loop.simps(2) simp add: split_loop_bar_Cons)

lemma split_loop_delim:
  "CHR ''|'' \<notin> set a \<Longrightarrow>
   split_loop ''|'' part (a @ ''|'' @ b) = (part @ a) # split_loop ''|'' [] b"
  by (induction a arbitrary: part)
     (auto simp del: split_loop.simps(2) simp add: split_loop_bar_Cons)

lemma split_join_two:
  assumes "CHR ''|'' \<notin> set a" and "CHR ''|'' \<notin> set b"
  shows "split (join [a, b] ''|'') ''|'' = [a, b]"
proof -
  have "split_loop ''|'' [] (a @ ''|'' @ b) = a # split_loop ''|'' [] b"
    using split_loop_delim [OF assms(1), of "[]" b] by simp
  also have "split_loop ''|'' [] b = [b]"
    using split_loop_no_delim [OF assms(2), of "[]"] by simp
  finally show ?thesis by (simp add: split_def)
qed

lemma length_split_loop:
  "length (split_loop ''|'' part s) = Suc (count_list s CHR ''|'')"
  by (induction s arbitrary: part)
     (auto simp del: split_loop.simps(2) simp add: split_loop_bar_Cons)

lemma length_split: "length (split s ''|'') = Suc (count_list s CHR ''|'')"
  by (simp add: split_def length_split_loop)

section \<open>The password protocol: results\<close>

lemma encrypt_success:
  assumes "encryptProfilePassword cr p = (Success, p', out)"
  shows "p' = p\<lparr>password := '''',
                 encryptionKey :=
                   snd (base64Encode cr (snd (crypto_random cr 32))) @ ''|'' @
                   fst (snd (encryptDataAsBase64EncodedString cr (password p)
                               (copy_to_string (snd (crypto_random cr 32)))))\<rparr>"
  using assms
  by (auto simp: encryptProfilePassword_def Let_def split: prod.splits if_splits)

lemma replicate_32:
  "replicate 32 x = [x,x,x,x,x,x,x,x,x,x,x,x,x,x,x,x,x,x,x,x,x,x,x,x,x,x,x,x,x,x,x,x]"
  by (simp add: numeral_eq_Suc)

lemma stub_encrypt:
  "encryptProfilePassword stub_crypto scenario_profile =
    (Success,
     scenario_profile\<lparr>password := '''',
       encryptionKey := ''********************************|aXY=''\<rparr>,
     Some ''t3rc3s'')"
  by (simp add: encryptProfilePassword_def stub_crypto_def copy_to_string_def
      scenario_profile_def replicate_32 char_of_def bit_0)

text \<open>
  C1. When the random source, the cipher and the key encoding succeed (that is,
  when \<open>encryptProfilePassword\<close> succeeds), and the collaborators keep their
  contract on the values of this run (decoding the key text gives the key back,
  decrypting the blob under the same key and initialisation vector gives the
  password back, and neither base64 text contains the delimiter), then
  \<open>decryptProfilePassword\<close> on the encrypted profile and the returned blob succeeds,
  restores the password and clears the encryption key. The password itself is
  arbitrary: it may be empty or contain the delimiter.
\<close>

theorem encrypt_then_decrypt:
  assumes rnd: "crypto_random cr 32 = (Success, key)"
    and enc: "encryptDataAsBase64EncodedString cr (password p) (copy_to_string key) =
                (Success, iv, blob)"
    and b64: "base64Encode cr key = (Success, keyText)"
    and b64_inverse: "base64Decode cr keyText = (Success, key)"
    and cipher_inverse:
      "decryptBase64EncodedString cr blob (copy_to_string key) iv = (Success, password p)"
    and key_alphabet: "CHR ''|'' \<notin> set keyText"
    and iv_alphabet: "CHR ''|'' \<notin> set iv"
  shows "encryptProfilePassword cr p =
           (Success, p\<lparr>password := '''', encryptionKey := keyText @ ''|'' @ iv\<rparr>, Some blob) \<and>
         decryptProfilePassword cr
           (p\<lparr>password := '''', encryptionKey := keyText @ ''|'' @ iv\<rparr>) blob =
           (Success, p\<lparr>password := password p, encryptionKey := ''''\<rparr>)"
proof -
  let ?p' = "p\<lparr>password := '''', encryptionKey := keyText @ ''|'' @ iv\<rparr>"
  have e: "encryptProfilePassword cr p = (Success, ?p', Some blob)"
    using rnd enc b64 by (simp add: encryptProfilePassword_def)
  have "split (join [keyText, iv] ''|'') ''|'' = [keyText, iv]"
    using key_alphabet iv_alphabet by (rule split_join_two)
  then have s: "split (encryptionKey ?p') ''|'' = [keyText, iv]"
    by simp
  have d: "decryptProfilePassword cr ?p' blob =
             (Success, p\<lparr>password := password p, encryptionKey := ''''\<rparr>)"
    unfolding decryptProfilePassword_def s using b64_inverse cipher_inverse by simp
  from e d show ?thesis by simp
qed

theorem encrypt_then_decrypt_witness:
  "encryptProfilePassword stub_crypto (scenario_profile\<lparr>password := ''s3|cr3t''\<rparr>) =
     (Success,
      scenario_profile\<lparr>password := '''',
        encryptionKey := ''********************************|aXY=''\<rparr>,
      Some ''t3rc|3s'') \<and>
   decryptProfilePassword stub_crypto
     (scenario_profile\<lparr>password := '''',
        encryptionKey := ''********************************|aXY=''\<rparr>) ''t3rc|3s'' =
     (Success, scenario_profile\<lparr>password := ''s3|cr3t'', encryptionKey := ''''\<rparr>)"
  using encrypt_then_decrypt [of stub_crypto "replicate 32 42"
      "scenario_profile\<lparr>password := ''s3|cr3t''\<rparr>" "''aXY=''" "''t3rc|3s''"
      "''********************************''"]
  by (simp add: stub_crypto_def copy_to_string_def scenario_profile_def replicate_32
      char_of_def bit_0)

text \<open>
  C2. Whenever \<open>encryptProfilePassword\<close> returns success, the password of the
  resulting profile is the empty string and its encryption key is not empty: it is
  the key text the encoder returned, the delimiter, and the initialisation vector
  text the cipher returned.
\<close>

theorem encrypt_success_state:
  assumes "encryptProfilePassword cr p = (Success, p', out)"
  shows "password p' = '''' \<and> encryptionKey p' \<noteq> '''' \<and>
         encryptionKey p' =
           snd (base64Encode cr (snd (crypto_random cr 32))) @ ''|'' @
           fst (snd (encryptDataAsBase64EncodedString cr (password p)
                       (copy_to_string (snd (crypto_random cr 32)))))"
  using encrypt_success [OF assms] by simp

theorem encrypt_success_state_witness:
  "password (scenario_profile\<lparr>password := '''',
       encryptionKey := ''********************************|aXY=''\<rparr>) = '''' \<and>
   encryptionKey (scenario_profile\<lparr>password := '''',
       encryptionKey := ''********************************|aXY=''\<rparr>) \<noteq> ''''"
  using encrypt_success_state [OF stub_encrypt] by simp

text \<open>
  C3. Whenever \<open>encryptProfilePassword\<close> or \<open>decryptProfilePassword\<close> returns an
  error, whichever step failed, the profile is exactly as it was before the call.
\<close>

theorem error_leaves_profile:
  "(fst (encryptProfilePassword cr p) \<noteq> Success \<longrightarrow>
      fst (snd (encryptProfilePassword cr p)) = p) \<and>
   (fst (decryptProfilePassword cr q blob) \<noteq> Success \<longrightarrow>
      snd (decryptProfilePassword cr q blob) = q)"
proof -
  have "fst (encryptProfilePassword cr p) \<noteq> Success \<longrightarrow>
          fst (snd (encryptProfilePassword cr p)) = p"
    by (simp add: encryptProfilePassword_def Let_def split: prod.splits)
  moreover have "fst (decryptProfilePassword cr q blob) \<noteq> Success \<longrightarrow>
          snd (decryptProfilePassword cr q blob) = q"
    by (simp add: decryptProfilePassword_def Let_def split: prod.splits list.splits)
  ultimately show ?thesis by simp
qed

theorem error_leaves_profile_witness:
  "fst (encryptProfilePassword failing_crypto scenario_profile) = collaboratorError 1 \<and>
   fst (snd (encryptProfilePassword failing_crypto scenario_profile)) = scenario_profile \<and>
   fst (decryptProfilePassword failing_crypto
          (scenario_profile\<lparr>encryptionKey := ''a2V5|aXY=''\<rparr>) ''blob'') = collaboratorError 4 \<and>
   snd (decryptProfilePassword failing_crypto
          (scenario_profile\<lparr>encryptionKey := ''a2V5|aXY=''\<rparr>) ''blob'') =
     scenario_profile\<lparr>encryptionKey := ''a2V5|aXY=''\<rparr>"
proof -
  have e: "fst (encryptProfilePassword failing_crypto scenario_profile) = collaboratorError 1"
    by (simp add: encryptProfilePassword_def failing_crypto_def)
  have "split ''a2V5|aXY='' ''|'' = [''a2V5'', ''aXY='']"
    using split_join_two [of "''a2V5''" "''aXY=''"] by simp
  then have d: "fst (decryptProfilePassword failing_crypto
          (scenario_profile\<lparr>encryptionKey := ''a2V5|aXY=''\<rparr>) ''blob'') = collaboratorError 4"
    by (simp add: decryptProfilePassword_def failing_crypto_def)
  show ?thesis
    using e d
      error_leaves_profile [of failing_crypto scenario_profile
        "scenario_profile\<lparr>encryptionKey := ''a2V5|aXY=''\<rparr>" "''blob''"]
    by simp
qed

text \<open>
  C6. When the encryption key of the profile does not split on the delimiter into
  exactly two parts, \<open>decryptProfilePassword\<close> returns the error with the message
  "Profile password encryption key invalid format", whatever the ciphertext, and
  leaves the profile (its password and its encryption key) unchanged.
\<close>

theorem invalid_key_format:
  assumes "length (split (encryptionKey p) ''|'') \<noteq> 2"
  shows "decryptProfilePassword cr p blob =
           (unknownError ''Profile password encryption key invalid format'', p)"
  using assms by (auto simp: decryptProfilePassword_def split: list.splits)

theorem invalid_key_format_witness:
  "decryptProfilePassword stub_crypto (scenario_profile\<lparr>encryptionKey := ''''\<rparr>) ''blob'' =
     (unknownError ''Profile password encryption key invalid format'',
      scenario_profile\<lparr>encryptionKey := ''''\<rparr>) \<and>
   decryptProfilePassword stub_crypto (scenario_profile\<lparr>encryptionKey := ''abc''\<rparr>) ''blob'' =
     (unknownError ''Profile password encryption key invalid format'',
      scenario_profile\<lparr>encryptionKey := ''abc''\<rparr>) \<and>
   decryptProfilePassword stub_crypto (scenario_profile\<lparr>encryptionKey := ''a|b|c''\<rparr>) ''blob'' =
     (unknownError ''Profile password encryption key invalid format'',
      scenario_profile\<lparr>encryptionKey := ''a|b|c''\<rparr>)"
  using
    invalid_key_format [of "scenario_profile\<lparr>encryptionKey := ''''\<rparr>" stub_crypto "''blob''"]
    invalid_key_format [of "scenario_profile\<lparr>encryptionKey := ''abc''\<rparr>" stub_crypto "''blob''"]
    invalid_key_format [of "scenario_profile\<lparr>encryptionKey := ''a|b|c''\<rparr>" stub_crypto "''blob''"]
  by (simp add: length_split)

text \<open>
  C10. A successful \<open>encryptProfilePassword\<close> changes only the password and the
  encryption key: the context, the executable path and the whole configuration of
  the resulting profile are those of the profile it was given.
\<close>

theorem encrypt_frame:
  assumes "encryptProfilePassword cr p = (Success, p', out)"
  shows "context p' = context p \<and> executablePath p' = executablePath p \<and>
         config p' = config p"
  using encrypt_success [OF assms] by simp

theorem encrypt_frame_witness:
  "context (scenario_profile\<lparr>password := '''',
       encryptionKey := ''********************************|aXY=''\<rparr>) = context scenario_profile \<and>
   executablePath (scenario_profile\<lparr>password := '''',
       encryptionKey := ''********************************|aXY=''\<rparr>) =
     executablePath scenario_profile \<and>
   config (scenario_profile\<lparr>password := '''',
       encryptionKey := ''********************************|aXY=''\<rparr>) = config scenario_profile"
  using encrypt_frame [OF stub_encrypt] by simp


section \<open>The limit encoder\<close>

text \<open>
  C7. The limit encoder has no error result. Every limit is an unsigned 64-bit
  value, so every limit fits the unsigned 64-bit encoding and is encoded as the
  value itself; the substitute 0 of the handler is never produced for a value
  other than 0.
\<close>

theorem toJson_value:
  "toJson limit = JInt (uint limit) \<and> 0 \<le> uint limit \<and> uint limit < 2 ^ 64"
proof -
  have "uint limit < 2 ^ 64"
    using uint_bounded [of limit] by simp
  then show ?thesis
    by (simp add: toJson_def uint64_value_def)
qed

section \<open>The launch profile codec: results\<close>

lemma excess_bits_small: "n < 2 ^ 53 \<Longrightarrow> excess_bits n = 0"
  by (simp add: excess_bits.simps)

lemma round_to_double_exact:
  assumes "n \<le> 2 ^ 53"
  shows "round_to_double n = n"
proof (cases "n < 2 ^ 53")
  case True
  then show ?thesis by (simp add: round_to_double_def excess_bits_small)
next
  case False
  with assms have "n = 2 ^ 53" by simp
  then show ?thesis by (simp add: round_to_double_def excess_bits.simps)
qed

lemma uint64_of_double_of_int:
  "0 \<le> x \<Longrightarrow> x < 2 ^ 64 \<Longrightarrow> uint64_of_double (real_of_int x) = Some (word_of_int x)"
  by (simp add: uint64_of_double_def)

lemma limit_roundtrip:
  assumes "round_to_double (uint (w :: 64 word)) = uint w"
  shows "uint64_of_double (double_of_int (uint w)) = Some w"
proof -
  have "uint w < 2 ^ 64"
    using uint_bounded [of w] by simp
  then have "uint64_of_double (real_of_int (uint w)) = Some (word_of_int (uint w))"
    by (intro uint64_of_double_of_int) simp_all
  then show ?thesis
    by (simp only: double_of_int_def assms word_of_int_uint) simp
qed

lemma asDouble_toJson: "asDouble (toJson w) = Some (double_of_int (uint w))"
  by (simp add: toJson_def uint64_value_def)

lemma asInt_sint: "asInt (JInt (sint (w :: 32 word))) = Some w"
proof -
  have "- (2 ^ 31) \<le> sint w" and "sint w < 2 ^ 31"
    using sint_ge [of w] sint_lt [of w] by simp_all
  then show ?thesis by simp
qed

lemma cpuAffinity_loop_bools:
  "cpuAffinity_loop (map JBool bs) acc = (Success, acc @ bs)"
  by (induction bs arbitrary: acc) simp_all

lemma cpuAffinityFromJson_bools: "cpuAffinityFromJson (map JBool bs) = (Success, bs)"
  by (simp add: cpuAffinityFromJson_def cpuAffinity_loop_bools)

lemma contextAsJson_members:
  "contextAsJson c =
     [(''username'', JString (username c)),
      (''project'', JString (project (scope c))),
      (''id'', JString (scope_id (scope c)))]"
  by (simp add: contextAsJson_def)

lemma toJson_members:
  "sessionLaunchProfileToJson lib p =
    [(''context'', JObject (contextAsJson (context p))),
     (''password'', JString (password p)),
     (''encryptionKey'', JString (encryptionKey p)),
     (''executablePath'', JString (executablePath p)),
     (''config'',
      JObject
       [(''args'', JArray (arrayOfPairs lib (args (config p)))),
        (''environment'', JObject (objectOfPairs lib (environment (config p)))),
        (''stdInput'', JString (stdInput (config p))),
        (''stdStreamBehavior'', JInt (sint (stdStreamBehavior (config p)))),
        (''priority'', JInt (sint (priority (limits (config p))))),
        (''memoryLimitBytes'', toJson (memoryLimitBytes (limits (config p)))),
        (''stackLimitBytes'', toJson (stackLimitBytes (limits (config p)))),
        (''userProcessesLimit'', toJson (userProcessesLimit (limits (config p)))),
        (''cpuLimit'', toJson (cpuLimit (limits (config p)))),
        (''niceLimit'', toJson (niceLimit (limits (config p)))),
        (''filesLimit'', toJson (filesLimit (limits (config p)))),
        (''cpuAffinity'', toJsonArray (cpuAffinity (limits (config p))))])]"
  by (simp add: sessionLaunchProfileToJson_def Let_def)

lemma contextFromJson_roundtrip:
  "contextFromJson (contextAsJson c) c0 = (Success, c)"
  by (simp add: contextFromJson_def contextAsJson_members readMember_def fromProjectId_def)

lemma stub_pairs_scenario:
  "arrayToStringPairList stub_json_pairs (arrayOfPairs stub_json_pairs [(''--flag'', '''')]) =
     [(''--flag'', '''')]"
  "objectToStringPairList stub_json_pairs
     (objectOfPairs stub_json_pairs [(''HOME'', ''/home/user'')]) = [(''HOME'', ''/home/user'')]"
  by (simp_all add: stub_json_pairs_def)

text \<open>
  C4, as stated, fails: a limit of \<open>2 ^ 53 + 1\<close> is written as that number, read
  into a \<^verbatim>\<open>double\<close>, which rounds it to \<open>2 ^ 53\<close>, and comes back changed.
\<close>

theorem roundtrip_large_limit_counterexample:
  "password large_limit_profile \<noteq> '''' \<and>
   memoryLimitBytes (limits (config large_limit_profile)) = 9007199254740993 \<and>
   sessionLaunchProfileFromJson stub_json_pairs leftover_doubles
     (sessionLaunchProfileToJson stub_json_pairs large_limit_profile) =
     (Some (scenario_profile\<lparr>config := (config scenario_profile)
        \<lparr>limits := (limits (config scenario_profile))
           \<lparr>memoryLimitBytes := 9007199254740992\<rparr>\<rparr>\<rparr>), []) \<and>
   (9007199254740992 :: 64 word) \<noteq> 9007199254740993"
  unfolding sessionLaunchProfileFromJson_def toJson_members
  by (simp add: large_limit_profile_def scenario_profile_def readMember_def
      contextFromJson_roundtrip cpuAffinityFromJson_def toJsonArray_def LOG_ERROR_def
      default_profile_def stub_json_pairs_def leftover_doubles_def toJson_def uint64_value_def
      double_of_int_def round_to_double_def excess_bits.simps uint64_of_double_def)

text \<open>
  C4, amended. For every profile whose six limits are exactly representable as a
  \<^verbatim>\<open>double\<close> (rounding leaves them unchanged; every value up to \<open>2 ^ 53\<close> is) and
  whose argument and environment lists survive the pair-list conversions of the
  library, decoding the encoded profile gives back the profile itself, every field
  of it, and logs no error, whatever the six \<^verbatim>\<open>double\<close> locals held before.
\<close>

theorem profile_roundtrip:
  assumes lim:
      "round_to_double (uint (memoryLimitBytes (limits (config p)))) =
         uint (memoryLimitBytes (limits (config p)))"
      "round_to_double (uint (stackLimitBytes (limits (config p)))) =
         uint (stackLimitBytes (limits (config p)))"
      "round_to_double (uint (userProcessesLimit (limits (config p)))) =
         uint (userProcessesLimit (limits (config p)))"
      "round_to_double (uint (cpuLimit (limits (config p)))) =
         uint (cpuLimit (limits (config p)))"
      "round_to_double (uint (niceLimit (limits (config p)))) =
         uint (niceLimit (limits (config p)))"
      "round_to_double (uint (filesLimit (limits (config p)))) =
         uint (filesLimit (limits (config p)))"
    and args_ok: "arrayToStringPairList lib (arrayOfPairs lib (args (config p))) = args (config p)"
    and env_ok:
      "objectToStringPairList lib (objectOfPairs lib (environment (config p))) =
         environment (config p)"
  shows "sessionLaunchProfileFromJson lib indeterminate (sessionLaunchProfileToJson lib p) =
           (Some p, [])"
  unfolding sessionLaunchProfileFromJson_def toJson_members
  using lim [THEN limit_roundtrip] args_ok env_ok
  by (simp add: readMember_def asDouble_toJson asInt_sint contextFromJson_roundtrip
      cpuAffinityFromJson_bools toJsonArray_def LOG_ERROR_def default_profile_def
      del: asInt.simps)

theorem profile_roundtrip_witness:
  "sessionLaunchProfileFromJson stub_json_pairs leftover_doubles
     (sessionLaunchProfileToJson stub_json_pairs scenario_profile) = (Some scenario_profile, [])"
proof -
  have small: "round_to_double 2000000000 = 2000000000" "round_to_double 0 = 0"
    by (simp_all add: round_to_double_exact)
  show ?thesis
    using profile_roundtrip [of scenario_profile stub_json_pairs leftover_doubles]
      small stub_pairs_scenario
    by (simp add: scenario_profile_def)
qed

text \<open>
  C5. On the empty object nothing can be read, and the six limits of the returned
  profile are not zero: they are whatever the six \<^verbatim>\<open>double\<close> locals held, here 5,
  6, 7, 11, 13 and 17. The other fields hold their defaults and four errors are
  logged.
\<close>

theorem decode_empty_object:
  "sessionLaunchProfileFromJson stub_json_pairs leftover_doubles [] =
     (Some (default_profile\<lparr>config := (config default_profile)
        \<lparr>limits := (limits (config default_profile))
           \<lparr>memoryLimitBytes := 5, stackLimitBytes := 6, userProcessesLimit := 7,
            cpuLimit := 11, niceLimit := 13, filesLimit := 17\<rparr>\<rparr>\<rparr>),
      [jsonError ParamMissing, jsonError ParamMissing, jsonError ParamMissing,
       jsonError ParamMissing])"
  by (simp add: sessionLaunchProfileFromJson_def readMember_def contextFromJson_def
      cpuAffinityFromJson_def LOG_ERROR_def default_profile_def stub_json_pairs_def
      leftover_doubles_def uint64_of_double_def)

section \<open>The fork tracker: results\<close>

lemma run_Nil: "run pf [] s = s"
  by (simp add: run_def)

lemma run_Cons: "run pf (e # evs) s = run pf evs (step pf s e)"
  by (simp add: run_def)

lemma run_append: "run pf (xs @ ys) s = run pf ys (run pf xs s)"
  by (simp add: run_def)

lemma step_wasForked_mono: "wasForked s \<Longrightarrow> wasForked (step pf s e)"
  by (cases e; cases pf)
     (simp_all add: wasForked_def setupForkHandlers_def initThreadId_def atForkParent_def
        prepareFork_def atForkChild_def)

lemma run_wasForked_mono: "wasForked s \<Longrightarrow> wasForked (run pf evs s)"
  by (induction evs arbitrary: s) (simp_all add: run_Nil run_Cons step_wasForked_mono)

lemma step_not_child: "\<not> is_ForkChild e \<Longrightarrow> wasForked (step pf s e) = wasForked s"
  by (cases e; cases pf)
     (simp_all add: wasForked_def setupForkHandlers_def initThreadId_def atForkParent_def
        prepareFork_def)

lemma run_not_child:
  "\<forall>e\<in>set evs. \<not> is_ForkChild e \<Longrightarrow> wasForked (run pf evs s) = wasForked s"
  by (induction evs arbitrary: s) (simp_all add: run_Nil run_Cons step_not_child)

lemma step_Win32:
  "\<not> atfork_registered s \<Longrightarrow> \<not> wasForked s \<Longrightarrow>
   \<not> atfork_registered (step Win32 s e) \<and> \<not> wasForked (step Win32 s e)"
  by (cases e) (simp_all add: wasForked_def setupForkHandlers_def initThreadId_def)

lemma run_Win32:
  "\<not> atfork_registered s \<Longrightarrow> \<not> wasForked s \<Longrightarrow> \<not> wasForked (run Win32 evs s)"
proof (induction evs arbitrary: s)
  case Nil
  then show ?case by (simp add: run_Nil)
next
  case (Cons e evs)
  from step_Win32 [OF Cons.prems, of e] show ?case
    by (simp add: run_Cons Cons.IH)
qed

lemma step_not_init:
  "\<not> is_InitThreadId e \<Longrightarrow>
   t_isMainThread (step pf s e) = t_isMainThread s \<and>
   s_mainThreadId (step pf s e) = s_mainThreadId s"
  by (cases e; cases pf)
     (simp_all add: setupForkHandlers_def atForkParent_def prepareFork_def atForkChild_def)

lemma run_not_init:
  "\<forall>e\<in>set evs. \<not> is_InitThreadId e \<Longrightarrow>
   t_isMainThread (run pf evs s) = t_isMainThread s \<and>
   s_mainThreadId (run pf evs s) = s_mainThreadId s"
  by (induction evs arbitrary: s) (simp_all add: run_Nil run_Cons step_not_init)

text \<open>
  C8. In the initial state, and after any events none of which is the process
  becoming a forked child, \<open>wasForked\<close> is false. Once the fork-child hook has run
  (directly, or through a fork event with the hooks registered), \<open>wasForked\<close> is
  true after any further events, and no event takes it from true back to false.
  On the non-Unix target no hook is ever registered and \<open>wasForked\<close> is false after
  every sequence of events.
\<close>

theorem fork_tracker:
  "\<not> wasForked initial_process \<and>
   ((\<forall>e\<in>set evs. \<not> is_ForkChild e) \<longrightarrow> \<not> wasForked (run pf evs initial_process)) \<and>
   wasForked (run pf later (atForkChild s)) \<and>
   (atfork_registered s \<longrightarrow> wasForked (run pf later (step pf s (ForkChild t)))) \<and>
   (wasForked s \<longrightarrow> wasForked (step pf s e)) \<and>
   \<not> wasForked (run Win32 evs initial_process)"
proof -
  have i: "\<not> wasForked initial_process"
    by (simp add: wasForked_def initial_process_def)
  have r: "\<not> atfork_registered initial_process"
    by (simp add: initial_process_def)
  have c: "wasForked (atForkChild s')" for s'
    by (simp add: wasForked_def atForkChild_def)
  have k: "atfork_registered s \<longrightarrow> wasForked (run pf later (step pf s (ForkChild t)))"
    using run_wasForked_mono [OF c, of pf later "prepareFork t s"] by simp
  show ?thesis
    using i k run_not_child [of evs pf initial_process] run_wasForked_mono [OF c, of pf later s]
      step_wasForked_mono [of s pf e] run_Win32 [OF r i, of evs]
    by blast
qed

theorem fork_tracker_witness:
  "\<not> wasForked (run Unix [SetupForkHandlers 0, InitThreadId 1, ForkParent 1] initial_process) \<and>
   wasForked (run Unix [ForkParent 1, InitThreadId 2]
     (step Unix (setupForkHandlers Unix 0 initial_process) (ForkChild 1))) \<and>
   wasForked (step Unix (atForkChild initial_process) (InitThreadId 3)) \<and>
   \<not> wasForked (run Win32 [SetupForkHandlers 0, InitThreadId 1, ForkParent 1] initial_process)"
proof -
  have a: "\<forall>e\<in>set [SetupForkHandlers 0, InitThreadId 1, ForkParent 1]. \<not> is_ForkChild e"
    by simp
  have b: "atfork_registered (setupForkHandlers Unix 0 initial_process)"
    by (simp add: setupForkHandlers_def)
  have c: "wasForked (atForkChild initial_process)"
    by (simp add: wasForked_def atForkChild_def)
  show ?thesis
    using a b c
      fork_tracker [of "[SetupForkHandlers 0, InitThreadId 1, ForkParent 1]" Unix
        "[ForkParent 1, InitThreadId 2]" "setupForkHandlers Unix 0 initial_process" 1
        "InitThreadId 3"]
      fork_tracker [of "[SetupForkHandlers 0, InitThreadId 1, ForkParent 1]" Unix "[]"
        "atForkChild initial_process" 1 "InitThreadId 3"]
    by blast
qed

text \<open>
  C9. After a history in which \<open>initThreadId\<close> was called exactly once, by thread
  \<open>t0\<close>, \<open>isMainThread\<close> called from thread \<open>t\<close> returns true when \<open>t\<close> is \<open>t0\<close> and
  false when it is any other thread; the consistency check logs nothing.
\<close>

theorem main_thread_identity:
  assumes "\<forall>e\<in>set before. \<not> is_InitThreadId e"
    and "\<forall>e\<in>set after. \<not> is_InitThreadId e"
  shows "isMainThread t (run pf (before @ InitThreadId t0 # after) initial_process) =
           (t = t0, [])"
proof -
  let ?s = "run pf before initial_process"
  have b: "t_isMainThread ?s = (\<lambda>t. None)"
    using run_not_init [OF assms(1), of pf initial_process] by (simp add: initial_process_def)
  have "t_isMainThread (initThreadId t0 ?s) = (\<lambda>t. if t = t0 then Some True else None)"
    and "s_mainThreadId (initThreadId t0 ?s) = Some t0"
    using b by (auto simp: initThreadId_def)
  then have
    "t_isMainThread (run pf after (initThreadId t0 ?s)) =
       (\<lambda>t. if t = t0 then Some True else None)"
    and "s_mainThreadId (run pf after (initThreadId t0 ?s)) = Some t0"
    using run_not_init [OF assms(2), of pf "initThreadId t0 ?s"] by simp_all
  then show ?thesis
    by (auto simp: isMainThread_def sysIsMainThread_def run_append run_Cons Let_def)
qed

theorem main_thread_identity_witness:
  "isMainThread 7 (run Unix [SetupForkHandlers 0, InitThreadId 7, ForkParent 7] initial_process) =
     (True, []) \<and>
   isMainThread 8 (run Unix [SetupForkHandlers 0, InitThreadId 7, ForkParent 7] initial_process) =
     (False, [])"
  using main_thread_identity [of "[SetupForkHandlers 0]" "[ForkParent 7]" 7 Unix 7]
    main_thread_identity [of "[SetupForkHandlers 0]" "[ForkParent 7]" 8 Unix 7]
  by simp

end
